theory Spec2Isabelle
  imports Complex_Main "HOL-Library.Multiset"
begin

section \<open>Strings and the trigram matcher (generate\_report.py, lines 26--50)\<close>

text \<open>
  Strings are lists of characters with code points below 256. Python's \<^verbatim>\<open>str.isspace\<close>
  (used by \<^verbatim>\<open>strip()\<close> and by the pattern \<^verbatim>\<open>\s\<close>) holds on that range for the code
  points 9--13, 28--32, 133 and 160; \<^verbatim>\<open>str.lower\<close> moves A--Z and the Latin-1 capitals
  192--222 (215 apart) up by 32.
\<close>

definition is_space :: "char \<Rightarrow> bool" where
  "is_space c = (let n = (of_char c :: nat) in
     (9 \<le> n \<and> n \<le> 13) \<or> (28 \<le> n \<and> n \<le> 32) \<or> n = 133 \<or> n = 160)"

definition lower_char :: "char \<Rightarrow> char" where
  "lower_char c = (let n = (of_char c :: nat) in
     if (65 \<le> n \<and> n \<le> 90) \<or> (192 \<le> n \<and> n \<le> 222 \<and> n \<noteq> 215)
     then char_of (n + 32) else c)"

definition lower :: "string \<Rightarrow> string" where
  "lower s = map lower_char s"

definition strip :: "string \<Rightarrow> string" where
  "strip s = rev (dropWhile is_space (rev (dropWhile is_space s)))"

text \<open>\<^verbatim>\<open>re.sub(r"\s+", " ", s)\<close>: every maximal run of whitespace becomes one blank.\<close>

function collapse_ws :: "string \<Rightarrow> string" where
  "collapse_ws [] = []"
| "collapse_ws (c # cs) =
     (if is_space c then CHR '' '' # collapse_ws (dropWhile is_space cs)
      else c # collapse_ws cs)"
  by pat_completeness auto
termination
  by (relation "measure length") (auto simp: length_dropWhile_le less_Suc_eq_le)

definition norm_str :: "string \<Rightarrow> string" where
  "norm_str s = collapse_ws (strip (lower s))"

definition trigram_set :: "string \<Rightarrow> string set" where
  "trigram_set s0 = (let s = ''  '' @ norm_str s0 @ ''  '' in
     if length s < 3 then {}
     else set (map (\<lambda>i. take 3 (drop i s)) [0 ..< length s - 2]))"

text \<open>
  Lines 42--44 of \<^verbatim>\<open>trigram_similarity\<close>, on the two trigram sets. The quotient of the two
  cardinalities is kept exact; Python's \<^verbatim>\<open>int / int\<close> returns the double nearest to it.
\<close>

definition jaccard :: "string set \<Rightarrow> string set \<Rightarrow> real" where
  "jaccard A B = (if A = {} \<or> B = {} then 0
                  else real (card (A \<inter> B)) / real (card (A \<union> B)))"

definition trigram_similarity :: "string \<Rightarrow> string \<Rightarrow> real" where
  "trigram_similarity a b = jaccard (trigram_set a) (trigram_set b)"

text \<open>
  \<^verbatim>\<open>fuzzy_match\<close>: the sort of the scored list does not change the set that is returned.
  The threshold is compared on the exact quotient: the double 0.35 is the rounding of 7/20,
  and a quotient of two cardinalities below 7/20 is rounded to a double below it.
\<close>

definition fuzzy_match :: "string \<Rightarrow> string list \<Rightarrow> real \<Rightarrow> string set" where
  "fuzzy_match query candidates min_score =
     {c \<in> set candidates. trigram_similarity query c \<ge> min_score}"

section \<open>Python values\<close>

text \<open>
  A float is a finite value, an infinity or NaN. The comparisons are those of IEEE 754:
  exact on the values, and false as soon as one side is NaN.
\<close>

datatype pyfloat = Finite real | PosInf | NegInf | NaN

fun flt :: "pyfloat \<Rightarrow> pyfloat \<Rightarrow> bool" where
  "flt NaN _ = False"
| "flt _ NaN = False"
| "flt (Finite a) (Finite b) = (a < b)"
| "flt _ NegInf = False"
| "flt NegInf _ = True"
| "flt PosInf _ = False"
| "flt _ PosInf = True"

definition feq :: "pyfloat \<Rightarrow> pyfloat \<Rightarrow> bool" where
  "feq a b = (a \<noteq> NaN \<and> a = b)"

definition fge :: "pyfloat \<Rightarrow> pyfloat \<Rightarrow> bool" where
  "fge a b = (flt b a \<or> feq a b)"

text \<open>
  The values a stored document holds. A dict is an association list whose first binding
  of a key is the one read; \<^verbatim>\<open>d.get(k)\<close> of a missing key is \<^verbatim>\<open>None\<close>.
\<close>

datatype pyval =
    PNone
  | PBool bool
  | PInt int
  | PFloat pyfloat
  | PStr string
  | PList "pyval list"
  | PDict "(string \<times> pyval) list"

datatype pyexc =
  TypeError | ValueError | OverflowError | AttributeError | IndexError | KeyError
  | DuplicateKeyError

definition dict_get :: "(string \<times> pyval) list \<Rightarrow> string \<Rightarrow> pyval" where
  "dict_get kvs k = (case map_of kvs k of None \<Rightarrow> PNone | Some v \<Rightarrow> v)"

fun truthy :: "pyval \<Rightarrow> bool" where
  "truthy PNone = False"
| "truthy (PBool b) = b"
| "truthy (PInt i) = (i \<noteq> 0)"
| "truthy (PFloat f) = (f \<noteq> Finite 0)"
| "truthy (PStr s) = (s \<noteq> [])"
| "truthy (PList xs) = (xs \<noteq> [])"
| "truthy (PDict kvs) = (kvs \<noteq> [])"

definition py_or :: "pyval \<Rightarrow> pyval \<Rightarrow> pyval" where
  "py_or a b = (if truthy a then a else b)"

text \<open>
  What the interpreter and its library do and the repository does not define is a
  parameter of the model: the conversion of an int and of a str to a float (\<open>None\<close> where
  \<^verbatim>\<open>float()\<close> raises), \<^verbatim>\<open>str()\<close> of a float, list or dict, the rounded float operations,
  and \<^verbatim>\<open>json.loads\<close> (\<open>None\<close> where it raises).
\<close>

record pyrt =
  float_of_int :: "int \<Rightarrow> pyfloat option"
  float_of_str :: "string \<Rightarrow> pyfloat option"
  repr_of :: "pyval \<Rightarrow> string"
  fadd :: "pyfloat \<Rightarrow> pyfloat \<Rightarrow> pyfloat"
  fdiv_int :: "pyfloat \<Rightarrow> int \<Rightarrow> pyfloat"
  round4 :: "pyfloat \<Rightarrow> pyfloat"
  json_loads :: "string \<Rightarrow> pyval option"

text \<open>The builtin \<^verbatim>\<open>float(x)\<close>.\<close>

fun py_float :: "pyrt \<Rightarrow> pyval \<Rightarrow> pyexc + pyfloat" where
  "py_float rt PNone = Inl TypeError"
| "py_float rt (PBool b) = Inr (Finite (if b then 1 else 0))"
| "py_float rt (PInt i) =
     (case float_of_int rt i of None \<Rightarrow> Inl OverflowError | Some f \<Rightarrow> Inr f)"
| "py_float rt (PFloat f) = Inr f"
| "py_float rt (PStr s) =
     (case float_of_str rt s of None \<Rightarrow> Inl ValueError | Some f \<Rightarrow> Inr f)"
| "py_float rt (PList xs) = Inl TypeError"
| "py_float rt (PDict kvs) = Inl TypeError"

text \<open>The builtin \<^verbatim>\<open>str(x)\<close>; decimal digits for an int.\<close>

function digits :: "nat \<Rightarrow> string" where
  "digits n = (if n < 10 then [char_of (48 + n)] else digits (n div 10) @ [char_of (48 + n mod 10)])"
  by pat_completeness auto
termination
  by (relation "measure id") auto

fun py_str :: "pyrt \<Rightarrow> pyval \<Rightarrow> string" where
  "py_str rt PNone = ''None''"
| "py_str rt (PBool b) = (if b then ''True'' else ''False'')"
| "py_str rt (PInt i) = (if i < 0 then CHR ''-'' # digits (nat (- i)) else digits (nat i))"
| "py_str rt (PStr s) = s"
| "py_str rt v = repr_of rt v"

text \<open>A method call \<^verbatim>\<open>x.strip()\<close> or \<^verbatim>\<open>x.get(k)\<close> on a value of another type raises.\<close>

definition py_strip :: "pyval \<Rightarrow> pyexc + string" where
  "py_strip v = (case v of PStr s \<Rightarrow> Inr (strip s) | _ \<Rightarrow> Inl AttributeError)"

definition py_get :: "pyval \<Rightarrow> string \<Rightarrow> pyexc + pyval" where
  "py_get v k = (case v of PDict kvs \<Rightarrow> Inr (dict_get kvs k) | _ \<Rightarrow> Inl AttributeError)"

section \<open>The aggregation (generate\_report.py, lines 53--160)\<close>

definition safe_float :: "pyrt \<Rightarrow> pyval \<Rightarrow> pyfloat option" where
  "safe_float rt x =
     (if x = PNone then None
      else case py_float rt x of Inl _ \<Rightarrow> None | Inr f \<Rightarrow> Some f)"

text \<open>
  One value of the dict \<^verbatim>\<open>agg\<close> (fields prefixed \<open>e_\<close>), and one classification document
  as the query of line 92 projects it; a field the document lacks reads \<^verbatim>\<open>None\<close>.
\<close>

record entry =
  e_scientific_name :: string
  e_common_name :: string
  e_label :: string
  e_positive_segments :: int
  e_segments_total :: int
  e_confidence_sum :: pyfloat
  e_confidence_n :: int
  e_max_confidence :: pyfloat
  e_sample_lat :: pyval
  e_sample_lon :: pyval

record cls_doc =
  audio_id :: pyval
  geo :: pyval
  raw :: pyval
  best_label :: pyval

text \<open>
  \<^verbatim>\<open>agg\<close> keeps its keys in insertion order, as a Python dict does;
  \<^verbatim>\<open>seen_audio_per_species\<close> is a \<^verbatim>\<open>defaultdict(set)\<close>.
\<close>

type_synonym agg_state = "(string \<times> entry) list \<times> (string \<Rightarrow> string set)"

definition new_entry :: "string \<Rightarrow> string \<Rightarrow> string \<Rightarrow> entry" where
  "new_entry sci com lab =
     \<lparr> e_scientific_name = sci, e_common_name = com, e_label = lab,
       e_positive_segments = 0, e_segments_total = 0,
       e_confidence_sum = Finite 0, e_confidence_n = 0, e_max_confidence = Finite 0,
       e_sample_lat = PNone, e_sample_lon = PNone \<rparr>"

fun set_entry :: "(string \<times> entry) list \<Rightarrow> string \<Rightarrow> entry \<Rightarrow> (string \<times> entry) list" where
  "set_entry [] k e = [(k, e)]"
| "set_entry ((k', e') # rest) k e =
     (if k' = k then (k, e) # rest else (k', e') # set_entry rest k e)"

text \<open>Lines 146--153: the counters of one entry, for a segment of confidence \<open>c\<close>.\<close>

definition count_segment :: "pyrt \<Rightarrow> pyfloat \<Rightarrow> pyfloat \<Rightarrow> entry \<Rightarrow> entry" where
  "count_segment rt threshold c e =
     (let e1 = e \<lparr> e_segments_total := e_segments_total e + 1,
                   e_confidence_sum := fadd rt (e_confidence_sum e) c,
                   e_confidence_n := e_confidence_n e + 1 \<rparr>;
          e2 = (if flt (e_max_confidence e1) c then e1 \<lparr> e_max_confidence := c \<rparr> else e1)
      in if fge c threshold
         then e2 \<lparr> e_positive_segments := e_positive_segments e2 + 1 \<rparr> else e2)"

text \<open>Lines 155--157: the sample coordinate, read from \<^verbatim>\<open>geo\<close> while none is stored.\<close>

definition sample_geo :: "pyval \<Rightarrow> entry \<Rightarrow> pyexc + entry" where
  "sample_geo g e =
     (if e_sample_lat e = PNone
      then (case py_get g ''lat'' of Inl x \<Rightarrow> Inl x | Inr la \<Rightarrow>
            (case py_get g ''lon'' of Inl x \<Rightarrow> Inl x | Inr lo \<Rightarrow>
               Inr (e \<lparr> e_sample_lat := la, e_sample_lon := lo \<rparr>)))
      else Inr e)"

text \<open>Lines 116--160: the body of the loop over \<^verbatim>\<open>results\<close>, for one element \<open>r\<close>.\<close>

definition agg_segment :: "pyrt \<Rightarrow> pyfloat \<Rightarrow> cls_doc \<Rightarrow> pyval \<Rightarrow> agg_state \<Rightarrow> pyexc + agg_state" where
  "agg_segment rt threshold doc r st =
     (case r of
        PDict kv \<Rightarrow>
          (let label = py_or (py_or (dict_get kv ''label'') (best_label doc)) (PStr ''unknown'');
               scientific = py_or (dict_get kv ''scientific_name'') (PStr '''');
               common = py_or (dict_get kv ''common_name'') (PStr '''')
           in case safe_float rt (dict_get kv ''confidence'') of
                None \<Rightarrow> Inr st
              | Some confidence \<Rightarrow>
                 (case py_strip scientific of Inl x \<Rightarrow> Inl x | Inr sci \<Rightarrow>
                    (let lab = strip (py_str rt label);
                         species_key = (if sci \<noteq> [] then sci else lab)
                     in case py_strip common of Inl x \<Rightarrow> Inl x | Inr com \<Rightarrow>
                       (let e0 = (case map_of (fst st) species_key of
                                    Some e \<Rightarrow> e | None \<Rightarrow> new_entry sci com lab);
                            e1 = count_segment rt threshold confidence e0
                        in case sample_geo (py_or (geo doc) (PDict [])) e1 of
                             Inl x \<Rightarrow> Inl x
                           | Inr e2 \<Rightarrow>
                               Inr (set_entry (fst st) species_key e2,
                                    if truthy (audio_id doc)
                                    then (snd st)(species_key :=
                                            insert (py_str rt (audio_id doc)) (snd st species_key))
                                    else snd st)))))
      | _ \<Rightarrow> Inr st)"

text \<open>
  Lines 105--113: the list the loop runs over. A document whose \<^verbatim>\<open>raw\<close> is no dict, or
  whose \<^verbatim>\<open>raw["results"]\<close> is no list or an empty one, is passed over.
\<close>

definition doc_results :: "cls_doc \<Rightarrow> pyval list" where
  "doc_results doc =
     (case py_or (raw doc) (PDict []) of
        PDict kv \<Rightarrow> (case dict_get kv ''results'' of PList rs \<Rightarrow> rs | _ \<Rightarrow> [])
      | _ \<Rightarrow> [])"

fun agg_segments :: "pyrt \<Rightarrow> pyfloat \<Rightarrow> cls_doc \<Rightarrow> pyval list \<Rightarrow> agg_state \<Rightarrow> pyexc + agg_state" where
  "agg_segments rt threshold doc [] st = Inr st"
| "agg_segments rt threshold doc (r # rs) st =
     (case agg_segment rt threshold doc r st of
        Inl x \<Rightarrow> Inl x
      | Inr st' \<Rightarrow> agg_segments rt threshold doc rs st')"

definition agg_doc :: "pyrt \<Rightarrow> pyfloat \<Rightarrow> cls_doc \<Rightarrow> agg_state \<Rightarrow> pyexc + agg_state" where
  "agg_doc rt threshold doc st = agg_segments rt threshold doc (doc_results doc) st"

fun agg_docs :: "pyrt \<Rightarrow> pyfloat \<Rightarrow> cls_doc list \<Rightarrow> agg_state \<Rightarrow> pyexc + agg_state" where
  "agg_docs rt threshold [] st = Inr st"
| "agg_docs rt threshold (d # ds) st =
     (case agg_doc rt threshold d st of
        Inl x \<Rightarrow> Inl x
      | Inr st' \<Rightarrow> agg_docs rt threshold ds st')"

definition aggregate :: "pyrt \<Rightarrow> pyfloat \<Rightarrow> cls_doc list \<Rightarrow> pyexc + agg_state" where
  "aggregate rt threshold docs = agg_docs rt threshold docs ([], \<lambda>_. {})"

section \<open>The report (generate\_report.py, lines 162--223)\<close>

text \<open>One row of the report (fields prefixed \<open>r_\<close>).\<close>

record row =
  r_scientific_name :: string
  r_common_name :: string
  r_label :: string
  r_audio_files_count :: int
  r_positive_segments :: int
  r_segments_total :: int
  r_max_confidence :: pyfloat
  r_avg_confidence :: pyfloat
  r_observations_count :: int
  r_sample_lat :: pyval
  r_sample_lon :: pyval

text \<open>
  Lines 168--191. \<open>obs\<close> is \<^verbatim>\<open>obs_col.count_documents({"taxon_code": k})\<close>, the count kept
  by the observation collection.
\<close>

definition build_row :: "pyrt \<Rightarrow> (string \<Rightarrow> int) \<Rightarrow> (string \<Rightarrow> string set) \<Rightarrow> string \<Rightarrow> entry \<Rightarrow> row" where
  "build_row rt obs seen species_key e =
     (let avg_conf = (if e_confidence_n e \<noteq> 0
                      then fdiv_int rt (e_confidence_sum e) (e_confidence_n e) else Finite 0);
          c0 = obs species_key;
          obs_count = (if c0 = 0 \<and> e_label e \<noteq> [] then obs (e_label e) else c0)
      in \<lparr> r_scientific_name =
             (if e_scientific_name e \<noteq> [] then e_scientific_name e else species_key),
           r_common_name = e_common_name e,
           r_label = e_label e,
           r_audio_files_count = int (card (seen species_key)),
           r_positive_segments = e_positive_segments e,
           r_segments_total = e_segments_total e,
           r_max_confidence = round4 rt (e_max_confidence e),
           r_avg_confidence = round4 rt avg_conf,
           r_observations_count = obs_count,
           r_sample_lat = e_sample_lat e,
           r_sample_lon = e_sample_lon e \<rparr>)"

text \<open>Lines 163--166: an entry without a positive segment gives no row.\<close>

definition build_rows :: "pyrt \<Rightarrow> (string \<Rightarrow> int) \<Rightarrow> agg_state \<Rightarrow> row list" where
  "build_rows rt obs st =
     map (\<lambda>(k, e). build_row rt obs (snd st) k e)
       (filter (\<lambda>(k, e). \<not> e_positive_segments e \<le> 0) (fst st))"

text \<open>Lines 194--199.\<close>

definition clean_row :: "row \<Rightarrow> row" where
  "clean_row r =
     (let r1 = (if r_common_name r = [] then r \<lparr> r_common_name := ''(unknown)'' \<rparr> else r)
      in r1 \<lparr> r_scientific_name := strip (r_scientific_name r1),
              r_common_name := strip (r_common_name r1) \<rparr>)"

text \<open>Lines 201--217: the fuzzy filter, applied when \<^verbatim>\<open>--species\<close> is a non-empty string.\<close>

definition is_allowed :: "string \<Rightarrow> string set \<Rightarrow> row \<Rightarrow> bool" where
  "is_allowed query allowed r =
     (r_scientific_name r \<in> allowed
      \<or> r_common_name r \<in> allowed
      \<or> r_label r \<in> allowed
      \<or> trigram_similarity query (r_scientific_name r) \<ge> 35 / 100
      \<or> trigram_similarity query (r_common_name r) \<ge> 35 / 100)"

definition filter_species :: "string option \<Rightarrow> row list \<Rightarrow> row list" where
  "filter_species species rows =
     (case species of
        None \<Rightarrow> rows
      | Some query \<Rightarrow>
          if query = [] then rows
          else (let candidates =
                      concat (map (\<lambda>r. [r_scientific_name r, r_common_name r, r_label r]) rows);
                    allowed = fuzzy_match query candidates (35 / 100)
                in filter (is_allowed query allowed) rows))"

text \<open>
  Line 220. The key of a row is the tuple \<^verbatim>\<open>(positive_segments, max_confidence)\<close>, and
  \<open>key_lt\<close> is \<^verbatim>\<open><\<close> on two such tuples: the first components that are not equal decide.
  \<^verbatim>\<open>list.sort(reverse=True)\<close> reverses the list, sorts it stably in ascending order using
  \<^verbatim>\<open><\<close> only, and reverses the result; the stable sort is written as insertion sort.
\<close>

definition row_key :: "row \<Rightarrow> int \<times> pyfloat" where
  "row_key r = (r_positive_segments r, r_max_confidence r)"

definition key_lt :: "int \<times> pyfloat \<Rightarrow> int \<times> pyfloat \<Rightarrow> bool" where
  "key_lt a b =
     (if fst a \<noteq> fst b then fst a < fst b
      else if \<not> feq (snd a) (snd b) then flt (snd a) (snd b)
      else False)"

fun insert_row :: "row \<Rightarrow> row list \<Rightarrow> row list" where
  "insert_row x [] = [x]"
| "insert_row x (y # ys) =
     (if key_lt (row_key y) (row_key x) then y # insert_row x ys else x # y # ys)"

definition sort_ascending :: "row list \<Rightarrow> row list" where
  "sort_ascending rows = foldr insert_row rows []"

definition sort_rows :: "row list \<Rightarrow> row list" where
  "sort_rows rows = rev (sort_ascending (rev rows))"

text \<open>Lines 222--223.\<close>

definition top_rows :: "int \<Rightarrow> row list \<Rightarrow> row list" where
  "top_rows top_n rows = (if top_n \<noteq> 0 \<and> top_n > 0 then take (nat top_n) rows else rows)"

text \<open>Lines 102--223 together: the rows that are written to the CSV file, in order.\<close>

definition report :: "pyrt \<Rightarrow> (string \<Rightarrow> int) \<Rightarrow> pyfloat \<Rightarrow> string option \<Rightarrow> int \<Rightarrow> cls_doc list \<Rightarrow> pyexc + row list" where
  "report rt obs threshold species top_n docs =
     (case aggregate rt threshold docs of
        Inl x \<Rightarrow> Inl x
      | Inr st \<Rightarrow>
          Inr (top_rows top_n (sort_rows (filter_species species
                 (map clean_row (build_rows rt obs st))))))"

section \<open>The normalizer and the commit (classify\_audio.py)\<close>

text \<open>Lines 30--34.\<close>

definition safe_json :: "pyrt \<Rightarrow> string \<Rightarrow> pyval" where
  "safe_json rt resp_text =
     (case json_loads rt resp_text of
        Some v \<Rightarrow> v
      | None \<Rightarrow> PDict [(''raw'', PStr resp_text)])"

definition is_dict :: "pyval \<Rightarrow> bool" where
  "is_dict v = (case v of PDict _ \<Rightarrow> True | _ \<Rightarrow> False)"

definition is_list :: "pyval \<Rightarrow> bool" where
  "is_list v = (case v of PList _ \<Rightarrow> True | _ \<Rightarrow> False)"

text \<open>\<^verbatim>\<open>x[0]\<close>: the first element of a list or str; an error on anything else.\<close>

fun py_index0 :: "pyval \<Rightarrow> pyexc + pyval" where
  "py_index0 (PList (x # xs)) = Inr x"
| "py_index0 (PList []) = Inl IndexError"
| "py_index0 (PStr (c # cs)) = Inr (PStr [c])"
| "py_index0 (PStr []) = Inl IndexError"
| "py_index0 (PDict kvs) = Inl KeyError"
| "py_index0 v = Inl TypeError"

text \<open>
  Lines 171 and 183: \<^verbatim>\<open>d.get("label") or d.get("taxon_code") or d.get("species")\<close>,
  evaluated from the left.
\<close>

definition pick_label :: "pyval \<Rightarrow> pyexc + pyval" where
  "pick_label d =
     (case py_get d ''label'' of Inl x \<Rightarrow> Inl x | Inr a \<Rightarrow>
        if truthy a then Inr a
        else (case py_get d ''taxon_code'' of Inl x \<Rightarrow> Inl x | Inr b \<Rightarrow>
                if truthy b then Inr b else py_get d ''species''))"

text \<open>
  Lines 172--175 and 184--187: the body of the \<^verbatim>\<open>try\<close>, and the whole statement with its
  handler \<^verbatim>\<open>except Exception\<close>.
\<close>

definition score_expr :: "pyrt \<Rightarrow> pyval \<Rightarrow> pyexc + pyfloat option" where
  "score_expr rt d =
     (case py_get d ''score'' of Inl x \<Rightarrow> Inl x | Inr s \<Rightarrow>
        if s \<noteq> PNone
        then (case py_get d ''score'' of Inl x \<Rightarrow> Inl x | Inr s' \<Rightarrow>
                (case py_float rt s' of Inl x \<Rightarrow> Inl x | Inr f \<Rightarrow> Inr (Some f)))
        else Inr None)"

definition pick_score :: "pyrt \<Rightarrow> pyval \<Rightarrow> pyfloat option" where
  "pick_score rt d = (case score_expr rt d of Inl _ \<Rightarrow> None | Inr v \<Rightarrow> v)"

text \<open>Lines 163--187: the pair \<^verbatim>\<open>(best_label, best_score)\<close> after the two schema guesses.\<close>

definition normalize :: "pyrt \<Rightarrow> pyval \<Rightarrow> pyexc + (pyval \<times> pyfloat option)" where
  "normalize rt parsed =
     (if is_dict parsed then
        (case py_get parsed ''best'' of Inl x \<Rightarrow> Inl x | Inr b \<Rightarrow>
          (case (if is_dict b
                 then (case pick_label b of Inl x \<Rightarrow> Inl x
                       | Inr l \<Rightarrow> Inr (l, pick_score rt b))
                 else Inr (PNone, None)) of
             Inl x \<Rightarrow> Inl x
           | Inr best \<Rightarrow>
               if fst best = PNone then
                 (case py_get parsed ''predictions'' of Inl x \<Rightarrow> Inl x | Inr p \<Rightarrow>
                   (case (if truthy p then Inr p else py_get parsed ''results'') of
                      Inl x \<Rightarrow> Inl x
                    | Inr preds \<Rightarrow>
                        if is_list preds \<and> truthy preds then
                          (case py_index0 preds of Inl x \<Rightarrow> Inl x | Inr first \<Rightarrow>
                             if is_dict first
                             then (case pick_label first of Inl x \<Rightarrow> Inl x
                                   | Inr l \<Rightarrow> Inr (l, pick_score rt first))
                             else Inr best)
                        else Inr best))
               else Inr best))
      else Inr (PNone, None))"

text \<open>
  One entry of \<^verbatim>\<open>audio_files\<close>, and the document of lines 194--210 with the fields that
  the report reads back.
\<close>

record audio =
  a_audio_id :: pyval
  a_lat :: pyval
  a_lon :: pyval

definition outcome_doc :: "pyrt \<Rightarrow> audio \<Rightarrow> string \<Rightarrow> pyexc + cls_doc" where
  "outcome_doc rt a resp_text =
     (let parsed = safe_json rt resp_text
      in case normalize rt parsed of
           Inl x \<Rightarrow> Inl x
         | Inr best \<Rightarrow>
             Inr \<lparr> audio_id = a_audio_id a,
                   geo = PDict [(''lat'', a_lat a), (''lon'', a_lon a)],
                   raw = parsed,
                   best_label = fst best \<rparr>)"












section \<open>An instance of the parameters\<close>

text \<open>
  The concrete evaluations below run the model with these operations: the float
  operations are computed exactly (double arithmetic agrees wherever the exact result is
  a double), and \<^verbatim>\<open>round(x, 4)\<close> rounds to the nearest multiple of 1/10000, a tie to the
  even one. The inputs evaluated hold numbers as numbers, no str that Python would read as
  a number, and no response text that is JSON, so \<open>float_of_str\<close> and \<open>json_loads\<close> answer
  as Python does on them; their labels and identifiers are strs, so \<open>repr_of\<close> is not
  reached.
\<close>

fun fadd_exact :: "pyfloat \<Rightarrow> pyfloat \<Rightarrow> pyfloat" where
  "fadd_exact NaN _ = NaN"
| "fadd_exact _ NaN = NaN"
| "fadd_exact (Finite a) (Finite b) = Finite (a + b)"
| "fadd_exact PosInf NegInf = NaN"
| "fadd_exact NegInf PosInf = NaN"
| "fadd_exact PosInf _ = PosInf"
| "fadd_exact _ PosInf = PosInf"
| "fadd_exact NegInf _ = NegInf"
| "fadd_exact _ NegInf = NegInf"

fun fdiv_int_exact :: "pyfloat \<Rightarrow> int \<Rightarrow> pyfloat" where
  "fdiv_int_exact (Finite a) n = Finite (a / of_int n)"
| "fdiv_int_exact PosInf n = (if n < 0 then NegInf else PosInf)"
| "fdiv_int_exact NegInf n = (if n < 0 then PosInf else NegInf)"
| "fdiv_int_exact NaN n = NaN"

definition round_half_even :: "real \<Rightarrow> int" where
  "round_half_even x =
     (let f = \<lfloor>x\<rfloor>; d = x - of_int f
      in if d < 1 / 2 then f else if 1 / 2 < d then f + 1 else if even f then f else f + 1)"

fun round4_exact :: "pyfloat \<Rightarrow> pyfloat" where
  "round4_exact (Finite a) = Finite (of_int (round_half_even (a * 10000)) / 10000)"
| "round4_exact f = f"

definition rt_exact :: pyrt where
  "rt_exact =
     \<lparr> float_of_int = (\<lambda>i. Some (Finite (of_int i))),
       float_of_str = (\<lambda>s. None),
       repr_of = (\<lambda>v. ''''),
       fadd = fadd_exact,
       fdiv_int = fdiv_int_exact,
       round4 = round4_exact,
       json_loads = (\<lambda>s. None) \<rparr>"

section \<open>Quantities the properties speak of\<close>

text \<open>The positive segments counted over all species.\<close>

definition sum_positive :: "agg_state \<Rightarrow> int" where
  "sum_positive st = sum_list (map (\<lambda>p. e_positive_segments (snd p)) (fst st))"

text \<open>The segments counted over all species.\<close>

definition sum_total :: "agg_state \<Rightarrow> int" where
  "sum_total st = sum_list (map (\<lambda>p. e_segments_total (snd p)) (fst st))"

text \<open>The invariant of section 3 of the specification, for one entry and for \<^verbatim>\<open>agg\<close>.\<close>

definition entry_ok :: "entry \<Rightarrow> bool" where
  "entry_ok e =
     (0 \<le> e_positive_segments e
      \<and> e_positive_segments e \<le> e_segments_total e
      \<and> e_confidence_n e \<le> e_segments_total e)"

definition agg_ok :: "agg_state \<Rightarrow> bool" where
  "agg_ok st = list_all (\<lambda>p. entry_ok (snd p)) (fst st)"

text \<open>
  The order of the report: \<open>a\<close> may stand before \<open>b\<close> when it has more positive segments,
  or as many and a maximal confidence that is not below that of \<open>b\<close>.
\<close>

definition ranks_before :: "row \<Rightarrow> row \<Rightarrow> bool" where
  "ranks_before a b =
     (r_positive_segments b < r_positive_segments a
      \<or> (r_positive_segments a = r_positive_segments b
          \<and> fge (r_max_confidence a) (r_max_confidence b)))"



section \<open>Concrete inputs\<close>

text \<open>A segment whose confidence is the threshold 0.3, its document, and the state after it.\<close>

definition kv0 :: "(string \<times> pyval) list" where
  "kv0 = [(''label'', PStr ''robin''), (''confidence'', PFloat (Finite (3 / 10)))]"

definition doc0 :: cls_doc where
  "doc0 = \<lparr> audio_id = PStr ''a1'', geo = PDict [(''lat'', PNone), (''lon'', PNone)],
            raw = PDict [(''results'', PList [PDict kv0])], best_label = PNone \<rparr>"

definition st0 :: agg_state where
  "st0 = ([], \<lambda>_. {})"

definition st1 :: agg_state where
  "st1 = ([(''robin'',
            \<lparr> e_scientific_name = '''', e_common_name = '''', e_label = ''robin'',
              e_positive_segments = 1, e_segments_total = 1,
              e_confidence_sum = Finite (3 / 10), e_confidence_n = 1,
              e_max_confidence = Finite (3 / 10),
              e_sample_lat = PNone, e_sample_lon = PNone \<rparr>)],
          (\<lambda>_. {})(''robin'' := {''a1''}))"

text \<open>A segment whose confidence 1.5 lies outside [0, 1], and the state after it.\<close>

definition kv_out :: "(string \<times> pyval) list" where
  "kv_out = [(''label'', PStr ''robin''), (''confidence'', PFloat (Finite (3 / 2)))]"

definition st_out :: agg_state where
  "st_out = ([(''robin'',
            \<lparr> e_scientific_name = '''', e_common_name = '''', e_label = ''robin'',
              e_positive_segments = 1, e_segments_total = 1,
              e_confidence_sum = Finite (3 / 2), e_confidence_n = 1,
              e_max_confidence = Finite (3 / 2),
              e_sample_lat = PNone, e_sample_lon = PNone \<rparr>)],
          (\<lambda>_. {})(''robin'' := {''a1''}))"

text \<open>A segment without a confidence, and one whose confidence is no number.\<close>

definition kv_missing :: "(string \<times> pyval) list" where
  "kv_missing = [(''label'', PStr ''robin'')]"

definition kv_text :: "(string \<times> pyval) list" where
  "kv_text = [(''label'', PStr ''robin''), (''confidence'', PStr ''high'')]"

text \<open>
  A payload that names its prediction under \<^verbatim>\<open>best\<close> and \<^verbatim>\<open>predictions\<close> only, and the
  document stored for it.
\<close>

definition payload_best :: pyval where
  "payload_best =
     PDict [(''best'', PDict [(''label'', PStr ''robin''), (''score'', PFloat (Finite (9 / 10)))]),
            (''predictions'',
               PList [PDict [(''label'', PStr ''robin''), (''confidence'', PFloat (Finite (9 / 10)))]])]"

definition doc_best :: cls_doc where
  "doc_best = \<lparr> audio_id = PStr ''a2'', geo = PDict [(''lat'', PNone), (''lon'', PNone)],
               raw = payload_best, best_label = PStr ''robin'' \<rparr>"



definition an_audio :: audio where
  "an_audio = \<lparr> a_audio_id = PStr ''a3'', a_lat = PNone, a_lon = PNone \<rparr>"

text \<open>
  Three rows: two with five positive segments and maximal confidences 0.6 and 0.9, one
  with seven positive segments.
\<close>

definition a_row :: "string \<Rightarrow> int \<Rightarrow> real \<Rightarrow> row" where
  "a_row name pos conf =
     \<lparr> r_scientific_name = name, r_common_name = ''(unknown)'', r_label = name,
       r_audio_files_count = 1, r_positive_segments = pos, r_segments_total = 9,
       r_max_confidence = Finite conf, r_avg_confidence = Finite conf,
       r_observations_count = 0, r_sample_lat = PNone, r_sample_lon = PNone \<rparr>"

definition three_rows :: "row list" where
  "three_rows = [a_row ''A'' 5 (6 / 10), a_row ''B'' 5 (9 / 10), a_row ''C'' 7 (1 / 10)]"

text \<open>
  A document with two segments of one species, of confidences 0.8 and 0.1, and one segment
  of another species, of confidence 0.2.
\<close>

definition doc_two_species :: cls_doc where
  "doc_two_species =
     \<lparr> audio_id = PStr ''a4'', geo = PDict [(''lat'', PInt 45), (''lon'', PInt 16)],
       raw = PDict [(''results'', PList
          [PDict [(''label'', PStr ''robin''), (''scientific_name'', PStr ''Erithacus rubecula''),
                  (''confidence'', PFloat (Finite (8 / 10)))],
           PDict [(''label'', PStr ''eagle''), (''confidence'', PFloat (Finite (2 / 10)))],
           PDict [(''label'', PStr ''robin''), (''scientific_name'', PStr ''Erithacus rubecula''),
                  (''confidence'', PFloat (Finite (1 / 10)))]])],
       best_label = PStr ''robin'' \<rparr>"

text \<open>The one row of the report on that document, at the threshold 0.3.\<close>

definition row_robin :: row where
  "row_robin =
     \<lparr> r_scientific_name = ''Erithacus rubecula'', r_common_name = ''(unknown)'',
       r_label = ''robin'', r_audio_files_count = 1, r_positive_segments = 1,
       r_segments_total = 2, r_max_confidence = Finite (4 / 5),
       r_avg_confidence = Finite (9 / 20), r_observations_count = 0,
       r_sample_lat = PInt 45, r_sample_lon = PInt 16 \<rparr>"




section \<open>Properties of the trigram matcher\<close>

lemma finite_trigram_set: "finite (trigram_set s)"
  by (simp add: trigram_set_def Let_def)

lemma padded_length: "length (''  '' @ norm_str s @ ''  '') \<ge> 4"
  by simp

lemma trigram_set_nonempty: "trigram_set s \<noteq> {}"
proof -
  have "[0 ..< length (''  '' @ norm_str s @ ''  '') - 2] \<noteq> []"
    by simp
  then show ?thesis
    by (simp add: trigram_set_def Let_def)
qed

lemma jaccard_commute: "jaccard A B = jaccard B A"
  by (simp add: jaccard_def Int_commute Un_commute disj_commute)

lemma jaccard_self: "finite A \<Longrightarrow> A \<noteq> {} \<Longrightarrow> jaccard A A = 1"
  by (simp add: jaccard_def card_gt_0_iff)

text \<open>
  C8: the similarity is symmetric, and a string that yields at least one trigram has
  similarity 1 with itself.
\<close>

theorem trigram_similarity_symmetric_reflexive:
  "trigram_similarity a b = trigram_similarity b a
   \<and> (trigram_set a \<noteq> {} \<longrightarrow> trigram_similarity a a = 1)"
  using jaccard_commute [of "trigram_set a" "trigram_set b"]
    jaccard_self [OF finite_trigram_set, of a]
  by (simp add: trigram_similarity_def)

theorem trigram_similarity_symmetric_reflexive_witness:
  "trigram_similarity ''robin'' ''robyn'' = trigram_similarity ''robyn'' ''robin''
   \<and> trigram_set ''robin'' \<noteq> {}
   \<and> trigram_similarity ''robin'' ''robin'' = 1"
proof -
  have h: "trigram_set ''robin'' \<noteq> {}"
    by code_simp
  from trigram_similarity_symmetric_reflexive [of "''robin''" "''robyn''"] h show ?thesis
    by simp
qed

section \<open>Properties of the aggregation\<close>

lemmas eval_defs =
  agg_segment_def dict_get_def py_or_def safe_float_def rt_exact_def py_strip_def strip_def
  is_space_def count_segment_def new_entry_def sample_geo_def py_get_def fge_def feq_def Let_def
  sum_positive_def

lemma sum_set_entry:
  fixes f :: "entry \<Rightarrow> int"
  shows "sum_list (map (\<lambda>p. f (snd p)) (set_entry ag k e'))
       = sum_list (map (\<lambda>p. f (snd p)) ag) + f e'
         - (case map_of ag k of None \<Rightarrow> 0 | Some e \<Rightarrow> f e)"
  by (induction ag) auto

lemma map_of_set_entry_same: "map_of (set_entry ag k e) k = Some e"
  by (induction ag) auto

lemma map_of_set_entry_other: "k' \<noteq> k \<Longrightarrow> map_of (set_entry ag k e) k' = map_of ag k'"
  by (induction ag) auto

lemma count_segment_positive:
  "e_positive_segments (count_segment rt threshold c e)
     = e_positive_segments e + (if fge c threshold then 1 else 0)"
  by (simp add: count_segment_def Let_def)

lemma count_segment_total:
  "e_segments_total (count_segment rt threshold c e) = e_segments_total e + 1"
  by (simp add: count_segment_def Let_def)

lemma count_segment_n:
  "e_confidence_n (count_segment rt threshold c e) = e_confidence_n e + 1"
  by (simp add: count_segment_def Let_def)

lemma sample_geo_counts:
  "sample_geo g e = Inr e' \<Longrightarrow>
     e_positive_segments e' = e_positive_segments e
     \<and> e_segments_total e' = e_segments_total e
     \<and> e_confidence_n e' = e_confidence_n e
     \<and> e_max_confidence e' = e_max_confidence e"
  by (auto simp: sample_geo_def split: if_splits sum.splits)

lemma agg_segment_cases:
  assumes "agg_segment rt threshold doc (PDict kv) st = Inr st'"
      and "safe_float rt (dict_get kv ''confidence'') = Some c"
  obtains k e0 e2 sci com lab where
    "e0 = (case map_of (fst st) k of Some e \<Rightarrow> e | None \<Rightarrow> new_entry sci com lab)"
    "sample_geo (py_or (geo doc) (PDict [])) (count_segment rt threshold c e0) = Inr e2"
    "fst st' = set_entry (fst st) k e2"
  using assms
  by (auto simp: agg_segment_def Let_def split: sum.splits)

lemma fge_Finite: "fge (Finite a) (Finite b) = (b \<le> a)"
  by (auto simp: fge_def feq_def)

lemma fge_refl: "c \<noteq> NaN \<Longrightarrow> fge c c"
  by (simp add: fge_def feq_def)

text \<open>
  C1: a segment with a parseable confidence \<open>c\<close> adds one to the positive segments exactly
  when \<open>c >= threshold\<close>; a confidence equal to the threshold is counted.
\<close>

theorem positive_iff_confidence_ge_threshold:
  assumes "safe_float rt (dict_get kv ''confidence'') = Some c"
      and "agg_segment rt threshold doc (PDict kv) st = Inr st'"
  shows "sum_positive st' = sum_positive st + (if fge c threshold then 1 else 0)
         \<and> (c \<noteq> NaN \<and> threshold = c \<longrightarrow> sum_positive st' = sum_positive st + 1)
         \<and> (\<forall>x t. c = Finite x \<and> threshold = Finite t \<longrightarrow>
               (sum_positive st' = sum_positive st + 1) = (t \<le> x))
         \<and> (\<exists>k e'. map_of (fst st') k = Some e'
               \<and> e_positive_segments e'
                   = (case map_of (fst st) k of None \<Rightarrow> 0 | Some e \<Rightarrow> e_positive_segments e)
                     + (if fge c threshold then 1 else 0)
               \<and> (\<forall>k'. k' \<noteq> k \<longrightarrow> map_of (fst st') k' = map_of (fst st) k'))"
proof -
  from assms(2,1) obtain k e0 e2 sci com lab where
    e0: "e0 = (case map_of (fst st) k of Some e \<Rightarrow> e | None \<Rightarrow> new_entry sci com lab)"
    and e2: "sample_geo (py_or (geo doc) (PDict [])) (count_segment rt threshold c e0) = Inr e2"
    and st': "fst st' = set_entry (fst st) k e2"
    by (rule agg_segment_cases)
  have "e_positive_segments e2 = e_positive_segments e0 + (if fge c threshold then 1 else 0)"
    using sample_geo_counts [OF e2] by (simp add: count_segment_positive)
  moreover have "(case map_of (fst st) k of None \<Rightarrow> 0 | Some e \<Rightarrow> e_positive_segments e)
      = e_positive_segments e0"
    by (simp add: e0 new_entry_def split: option.splits)
  ultimately have main: "sum_positive st' = sum_positive st + (if fge c threshold then 1 else 0)"
    and key: "e_positive_segments e2
        = (case map_of (fst st) k of None \<Rightarrow> 0 | Some e \<Rightarrow> e_positive_segments e)
          + (if fge c threshold then 1 else 0)"
    by (simp_all add: sum_positive_def st' sum_set_entry)
  have "map_of (fst st') k = Some e2"
    and "\<forall>k'. k' \<noteq> k \<longrightarrow> map_of (fst st') k' = map_of (fst st) k'"
    by (simp_all add: st' map_of_set_entry_same map_of_set_entry_other)
  with key have per_key: "\<exists>k e'. map_of (fst st') k = Some e'
               \<and> e_positive_segments e'
                   = (case map_of (fst st) k of None \<Rightarrow> 0 | Some e \<Rightarrow> e_positive_segments e)
                     + (if fge c threshold then 1 else 0)
               \<and> (\<forall>k'. k' \<noteq> k \<longrightarrow> map_of (fst st') k' = map_of (fst st) k')"
    by blast
  show ?thesis
    using main per_key by (simp add: fge_Finite fge_refl)
qed

theorem positive_iff_confidence_ge_threshold_witness:
  "safe_float rt_exact (dict_get kv0 ''confidence'') = Some (Finite (3 / 10))
   \<and> agg_segment rt_exact (Finite (3 / 10)) doc0 (PDict kv0) st0 = Inr st1
   \<and> sum_positive st1 = sum_positive st0 + 1"
proof -
  have h1: "safe_float rt_exact (dict_get kv0 ''confidence'') = Some (Finite (3 / 10))"
    by (simp add: kv0_def eval_defs)
  have h2: "agg_segment rt_exact (Finite (3 / 10)) doc0 (PDict kv0) st0 = Inr st1"
    by (simp add: kv0_def doc0_def st0_def st1_def eval_defs)
  from positive_iff_confidence_ge_threshold [OF h1 h2] h1 h2 show ?thesis
    by simp
qed

lemma entry_ok_new: "entry_ok (new_entry sci com lab)"
  by (simp add: entry_ok_def new_entry_def)

lemma entry_ok_count: "entry_ok e \<Longrightarrow> entry_ok (count_segment rt threshold c e)"
  by (simp add: entry_ok_def count_segment_def Let_def)

lemma entry_ok_sample: "entry_ok e \<Longrightarrow> sample_geo g e = Inr e' \<Longrightarrow> entry_ok e'"
  using sample_geo_counts [of g e e'] by (simp add: entry_ok_def)

lemma list_all_set_entry:
  "list_all (\<lambda>p. P (snd p)) ag \<Longrightarrow> P e \<Longrightarrow> list_all (\<lambda>p. P (snd p)) (set_entry ag k e)"
  by (induction ag) auto

lemma map_of_list_all:
  "list_all (\<lambda>p. P (snd p)) ag \<Longrightarrow> map_of ag k = Some e \<Longrightarrow> P e"
  by (induction ag) (auto split: if_splits)

lemma agg_ok_segment:
  assumes "agg_ok st" and "agg_segment rt threshold doc r st = Inr st'"
  shows "agg_ok st'"
proof (cases r)
  case (PDict kv)
  show ?thesis
  proof (cases "safe_float rt (dict_get kv ''confidence'')")
    case None
    with assms PDict show ?thesis
      by (simp add: agg_segment_def Let_def)
  next
    case (Some c)
    from assms(2) PDict Some obtain k e0 e2 sci com lab where
      e0: "e0 = (case map_of (fst st) k of Some e \<Rightarrow> e | None \<Rightarrow> new_entry sci com lab)"
      and e2: "sample_geo (py_or (geo doc) (PDict [])) (count_segment rt threshold c e0) = Inr e2"
      and st': "fst st' = set_entry (fst st) k e2"
      by (auto elim: agg_segment_cases)
    have "entry_ok e0"
      using assms(1) map_of_list_all [of entry_ok "fst st" k]
      by (auto simp: e0 agg_ok_def entry_ok_new split: option.splits)
    then have "entry_ok e2"
      using e2 entry_ok_count entry_ok_sample by blast
    with assms(1) show ?thesis
      by (simp add: agg_ok_def st' list_all_set_entry)
  qed
qed (use assms in \<open>simp_all add: agg_segment_def\<close>)

lemma agg_ok_segments:
  "agg_ok st \<Longrightarrow> agg_segments rt threshold doc rs st = Inr st' \<Longrightarrow> agg_ok st'"
  by (induction rs arbitrary: st) (auto split: sum.splits dest: agg_ok_segment)

lemma agg_ok_docs:
  "agg_ok st \<Longrightarrow> agg_docs rt threshold ds st = Inr st' \<Longrightarrow> agg_ok st'"
  by (induction ds arbitrary: st) (auto simp: agg_doc_def split: sum.splits dest: agg_ok_segments)

lemma agg_ok_sums: "agg_ok st \<Longrightarrow> sum_positive st \<le> sum_total st"
proof -
  have "list_all (\<lambda>p. entry_ok (snd p)) ag \<Longrightarrow>
          sum_list (map (\<lambda>p. e_positive_segments (snd p)) ag)
            \<le> sum_list (map (\<lambda>p. e_segments_total (snd p)) ag)" for ag
    by (induction ag) (auto simp: entry_ok_def)
  then show "agg_ok st \<Longrightarrow> sum_positive st \<le> sum_total st"
    by (simp add: agg_ok_def sum_positive_def sum_total_def)
qed

text \<open>
  C4: \<open>positive_segments <= segments_total\<close> and \<open>confidence_n <= segments_total\<close> hold in
  every entry before the first segment, after each segment and in the finished aggregate,
  where the positive segments of all species are then at most the segments of all
  species; a segment adds one to \<open>segments_total\<close>, one to \<open>confidence_n\<close> and at most one
  to \<open>positive_segments\<close>.
\<close>

theorem aggregate_counter_invariant:
  "agg_ok st0
   \<and> (agg_ok st \<and> agg_segment rt threshold doc r st = Inr st' \<longrightarrow> agg_ok st')
   \<and> (aggregate rt threshold docs = Inr st''
        \<longrightarrow> agg_ok st'' \<and> sum_positive st'' \<le> sum_total st'')
   \<and> e_segments_total (count_segment rt threshold c e) = e_segments_total e + 1
   \<and> e_confidence_n (count_segment rt threshold c e) = e_confidence_n e + 1
   \<and> e_positive_segments e \<le> e_positive_segments (count_segment rt threshold c e)
   \<and> e_positive_segments (count_segment rt threshold c e) \<le> e_positive_segments e + 1"
proof -
  have a: "agg_ok ([], \<lambda>_. {})"
    by (simp add: agg_ok_def)
  have b: "aggregate rt threshold docs = Inr st''
      \<longrightarrow> agg_ok st'' \<and> sum_positive st'' \<le> sum_total st''"
    using agg_ok_docs [OF a] agg_ok_sums by (auto simp: aggregate_def)
  show ?thesis
    using a b agg_ok_segment [of st rt threshold doc r st']
    by (simp add: st0_def count_segment_total count_segment_n count_segment_positive)
qed

theorem aggregate_counter_invariant_witness:
  "agg_ok st0
   \<and> agg_segment rt_exact (Finite (3 / 10)) doc0 (PDict kv0) st0 = Inr st1
   \<and> aggregate rt_exact (Finite (3 / 10)) [doc0] = Inr st1
   \<and> agg_ok st1 \<and> sum_positive st1 \<le> sum_total st1"
proof -
  have h1: "agg_segment rt_exact (Finite (3 / 10)) doc0 (PDict kv0) st0 = Inr st1"
    by (simp add: kv0_def doc0_def st0_def st1_def eval_defs)
  have h2: "aggregate rt_exact (Finite (3 / 10)) [doc0] = Inr st1"
    using h1 by (simp add: aggregate_def agg_doc_def doc_results_def doc0_def st0_def
        py_or_def dict_get_def)
  from aggregate_counter_invariant
         [of st0 rt_exact "Finite (3 / 10)" doc0 "PDict kv0" st1 "[doc0]" st1] h1 h2
  show ?thesis
    by simp
qed

section \<open>Strings without trigrams\<close>

text \<open>
  C9, as stated: a string that yields no trigram, the empty string for one, has
  similarity 0 with every string. The empty string yields the trigram of three blanks,
  and its similarity with itself is 1.
\<close>

theorem empty_string_similarity_counterexample:
  "trigram_set '''' = {''   ''} \<and> trigram_similarity '''' '''' = 1"
  by code_simp

lemma jaccard_zero_iff:
  "finite A \<Longrightarrow> finite B \<Longrightarrow> (jaccard A B = 0) = (A \<inter> B = {})"
  by (auto simp: jaccard_def)

text \<open>
  C9, amended: every string yields at least one trigram, so the guard for an empty
  trigram set (which returns 0) is never taken on the trigram sets of strings; the
  similarity of two strings is 0 exactly when they share no trigram.
\<close>

theorem similarity_zero_iff_disjoint:
  "trigram_set s \<noteq> {}
   \<and> jaccard {} B = 0 \<and> jaccard A {} = 0
   \<and> (trigram_similarity a b = 0) = (trigram_set a \<inter> trigram_set b = {})"
  using trigram_set_nonempty [of s]
    jaccard_zero_iff [OF finite_trigram_set finite_trigram_set, of a b]
  by (simp add: trigram_similarity_def jaccard_def)

section \<open>Absent and out-of-range confidences\<close>

lemma safe_float_raises: "py_float rt v = Inl x \<Longrightarrow> safe_float rt v = None"
  by (simp add: safe_float_def)

lemma agg_segment_skip:
  "safe_float rt (dict_get kv ''confidence'') = None \<Longrightarrow>
     agg_segment rt threshold doc (PDict kv) st = Inr st"
  by (simp add: agg_segment_def Let_def)

text \<open>
  C6, as stated: a confidence outside [0, 1] is treated as absent. The segment of
  confidence 1.5 is counted, as a positive one, and 1.5 becomes the maximal confidence.
\<close>

theorem out_of_range_confidence_counterexample:
  "safe_float rt_exact (dict_get kv_out ''confidence'') = Some (Finite (3 / 2))
   \<and> agg_segment rt_exact (Finite (3 / 10)) doc0 (PDict kv_out) st0 = Inr st_out
   \<and> fst st_out \<noteq> fst st0"
  by (simp add: kv_out_def doc0_def st0_def st_out_def eval_defs)

lemma agg_segment_sums:
  assumes "safe_float rt (dict_get kv ''confidence'') = Some c"
      and "agg_segment rt threshold doc (PDict kv) st = Inr st'"
  shows "sum_total st' = sum_total st + 1
         \<and> sum_positive st' = sum_positive st + (if fge c threshold then 1 else 0)"
proof -
  from assms(2,1) obtain k e0 e2 sci com lab where
    e0: "e0 = (case map_of (fst st) k of Some e \<Rightarrow> e | None \<Rightarrow> new_entry sci com lab)"
    and e2: "sample_geo (py_or (geo doc) (PDict [])) (count_segment rt threshold c e0) = Inr e2"
    and st': "fst st' = set_entry (fst st) k e2"
    by (rule agg_segment_cases)
  have "e_positive_segments e2 = e_positive_segments e0 + (if fge c threshold then 1 else 0)"
    and "e_segments_total e2 = e_segments_total e0 + 1"
    using sample_geo_counts [OF e2] by (simp_all add: count_segment_positive count_segment_total)
  moreover have "(case map_of (fst st) k of None \<Rightarrow> 0 | Some e \<Rightarrow> e_positive_segments e)
      = e_positive_segments e0"
    and "(case map_of (fst st) k of None \<Rightarrow> 0 | Some e \<Rightarrow> e_segments_total e)
      = e_segments_total e0"
    by (simp_all add: e0 new_entry_def split: option.splits)
  ultimately show ?thesis
    by (simp add: sum_positive_def sum_total_def st' sum_set_entry)
qed

lemma agg_segment_returns:
  assumes "safe_float rt (dict_get kv ''confidence'') = Some c"
      and "py_strip (py_or (dict_get kv ''scientific_name'') (PStr '''')) = Inr sci"
      and "py_strip (py_or (dict_get kv ''common_name'') (PStr '''')) = Inr com"
      and "py_or (geo doc) (PDict []) = PDict g"
  shows "\<exists>st'. agg_segment rt threshold doc (PDict kv) st = Inr st'"
  using assms
  by (simp add: agg_segment_def Let_def sample_geo_def py_get_def)

text \<open>
  C6, amended: a confidence that is missing, \<^verbatim>\<open>None\<close> or rejected by \<^verbatim>\<open>float()\<close> is absent,
  and its segment leaves the aggregate as it was. A number is taken as it is, whatever its
  range: its segment is counted like any other, which adds one to the segments and, when
  the number is at least the threshold, one to the positive segments; a segment whose
  names are strs or missing and whose document has a dict or nothing for \<^verbatim>\<open>geo\<close> is
  always counted so.
\<close>

theorem absent_confidence_skipped:
  "safe_float rt PNone = None
   \<and> (py_float rt v = Inl x \<longrightarrow> safe_float rt v = None)
   \<and> (map_of kv ''confidence'' = None \<or> safe_float rt (dict_get kv ''confidence'') = None
        \<longrightarrow> agg_segment rt threshold doc (PDict kv) st = Inr st)
   \<and> safe_float rt (PFloat f) = Some f
   \<and> safe_float rt (PInt i) = float_of_int rt i
   \<and> safe_float rt (PBool b) = Some (Finite (if b then 1 else 0))
   \<and> (safe_float rt (dict_get kv ''confidence'') = Some c
        \<and> agg_segment rt threshold doc (PDict kv) st = Inr st'
        \<longrightarrow> sum_total st' = sum_total st + 1
            \<and> sum_positive st' = sum_positive st + (if fge c threshold then 1 else 0))
   \<and> (dict_get kv ''confidence'' = PFloat f
        \<and> py_strip (py_or (dict_get kv ''scientific_name'') (PStr '''')) = Inr sci
        \<and> py_strip (py_or (dict_get kv ''common_name'') (PStr '''')) = Inr com
        \<and> py_or (geo doc) (PDict []) = PDict g
        \<longrightarrow> (\<exists>st'. agg_segment rt threshold doc (PDict kv) st = Inr st'
                  \<and> sum_total st' = sum_total st + 1
                  \<and> sum_positive st' = sum_positive st + (if fge f threshold then 1 else 0)))"
proof -
  have missing: "map_of kv ''confidence'' = None \<Longrightarrow>
      safe_float rt (dict_get kv ''confidence'') = None"
    by (simp add: dict_get_def safe_float_def)
  have skip: "map_of kv ''confidence'' = None \<or> safe_float rt (dict_get kv ''confidence'') = None
        \<longrightarrow> agg_segment rt threshold doc (PDict kv) st = Inr st"
    using missing agg_segment_skip [of rt kv threshold doc st] by blast
  have conv: "safe_float rt (PFloat f) = Some f"
    "safe_float rt (PInt i) = float_of_int rt i"
    "safe_float rt (PBool b) = Some (Finite (if b then 1 else 0))"
    by (simp_all add: safe_float_def split: option.splits)
  have counted: "safe_float rt (dict_get kv ''confidence'') = Some c
        \<and> agg_segment rt threshold doc (PDict kv) st = Inr st'
        \<longrightarrow> sum_total st' = sum_total st + 1
            \<and> sum_positive st' = sum_positive st + (if fge c threshold then 1 else 0)"
    using agg_segment_sums [of rt kv c threshold doc st st'] by blast
  have always: "\<exists>st'. agg_segment rt threshold doc (PDict kv) st = Inr st'
                  \<and> sum_total st' = sum_total st + 1
                  \<and> sum_positive st' = sum_positive st + (if fge f threshold then 1 else 0)"
    if h: "dict_get kv ''confidence'' = PFloat f"
      "py_strip (py_or (dict_get kv ''scientific_name'') (PStr '''')) = Inr sci"
      "py_strip (py_or (dict_get kv ''common_name'') (PStr '''')) = Inr com"
      "py_or (geo doc) (PDict []) = PDict g"
  proof -
    have sf: "safe_float rt (dict_get kv ''confidence'') = Some f"
      by (simp add: h(1) conv(1))
    from agg_segment_returns [OF sf h(2) h(3) h(4), of threshold st]
    obtain st2 where st2: "agg_segment rt threshold doc (PDict kv) st = Inr st2"
      by blast
    from agg_segment_sums [OF sf st2] st2 show ?thesis
      by blast
  qed
  show ?thesis
    using safe_float_raises [of rt v x] skip conv counted always
    by (simp add: safe_float_def)
qed

theorem absent_confidence_skipped_witness:
  "py_float rt_exact (PStr ''high'') = Inl ValueError
   \<and> safe_float rt_exact (PStr ''high'') = None
   \<and> map_of kv_missing ''confidence'' = None
   \<and> agg_segment rt_exact (Finite (3 / 10)) doc0 (PDict kv_missing) st0 = Inr st0
   \<and> safe_float rt_exact (dict_get kv_text ''confidence'') = None
   \<and> agg_segment rt_exact (Finite (3 / 10)) doc0 (PDict kv_text) st0 = Inr st0
   \<and> dict_get kv_out ''confidence'' = PFloat (Finite (3 / 2))
   \<and> safe_float rt_exact (dict_get kv_out ''confidence'') = Some (Finite (3 / 2))
   \<and> py_strip (py_or (dict_get kv_out ''scientific_name'') (PStr '''')) = Inr ''''
   \<and> py_strip (py_or (dict_get kv_out ''common_name'') (PStr '''')) = Inr ''''
   \<and> py_or (geo doc0) (PDict []) = PDict [(''lat'', PNone), (''lon'', PNone)]
   \<and> agg_segment rt_exact (Finite (3 / 10)) doc0 (PDict kv_out) st0 = Inr st_out
   \<and> sum_total st_out = sum_total st0 + 1
   \<and> sum_positive st_out = sum_positive st0 + 1"
proof -
  have h1: "py_float rt_exact (PStr ''high'') = Inl ValueError"
    by (simp add: rt_exact_def)
  have h2: "map_of kv_missing ''confidence'' = None"
    by (simp add: kv_missing_def)
  have h3: "safe_float rt_exact (dict_get kv_text ''confidence'') = None"
    by (simp add: kv_text_def dict_get_def safe_float_def rt_exact_def)
  have h4: "dict_get kv_out ''confidence'' = PFloat (Finite (3 / 2))"
    by (simp add: kv_out_def dict_get_def)
  have h5: "safe_float rt_exact (dict_get kv_out ''confidence'') = Some (Finite (3 / 2))"
    by (simp add: h4 safe_float_def)
  have h6: "py_strip (py_or (dict_get kv_out ''scientific_name'') (PStr '''')) = Inr ''''"
    "py_strip (py_or (dict_get kv_out ''common_name'') (PStr '''')) = Inr ''''"
    by (simp_all add: kv_out_def dict_get_def py_or_def py_strip_def strip_def)
  have h7: "py_or (geo doc0) (PDict []) = PDict [(''lat'', PNone), (''lon'', PNone)]"
    by (simp add: doc0_def py_or_def)
  have h8: "agg_segment rt_exact (Finite (3 / 10)) doc0 (PDict kv_out) st0 = Inr st_out"
    by (simp add: kv_out_def doc0_def st0_def st_out_def eval_defs)
  have h9: "fge (Finite (3 / 2)) (Finite (3 / 10))"
    by (simp add: fge_def)
  from absent_confidence_skipped [where rt = rt_exact and v = "PStr ''high''" and x = ValueError
      and kv = kv_missing and threshold = "Finite (3 / 10)" and doc = doc0 and st = st0]
    absent_confidence_skipped [where rt = rt_exact and v = "PStr ''high''" and x = ValueError
      and kv = kv_text and threshold = "Finite (3 / 10)" and doc = doc0 and st = st0]
    absent_confidence_skipped [where rt = rt_exact and v = "PStr ''high''" and x = ValueError
      and kv = kv_out and threshold = "Finite (3 / 10)" and doc = doc0 and st = st0
      and st' = st_out and c = "Finite (3 / 2)" and f = "Finite (3 / 2)"
      and sci = "''''" and com = "''''" and g = "[(''lat'', PNone), (''lon'', PNone)]"]
    h1 h2 h3 h4 h5 h6 h7 h8 h9
  show ?thesis
    by simp
qed

section \<open>What the report reads of a stored payload\<close>

lemma agg_doc_no_results:
  "doc_results doc = [] \<Longrightarrow> agg_doc rt threshold doc st = Inr st"
  by (simp add: agg_doc_def)

lemma doc_results_no_key:
  "raw doc = PDict kv \<Longrightarrow> map_of kv ''results'' = None \<Longrightarrow> doc_results doc = []"
  by (simp add: doc_results_def py_or_def dict_get_def)

text \<open>
  C10: a document whose raw payload has no key \<^verbatim>\<open>results\<close> gives the report no segment,
  whatever it holds under \<^verbatim>\<open>best\<close> or \<^verbatim>\<open>predictions\<close>.
\<close>

theorem report_reads_only_results:
  assumes "raw doc = PDict kv" and "map_of kv ''results'' = None"
  shows "doc_results doc = [] \<and> agg_doc rt threshold doc st = Inr st"
  using doc_results_no_key [OF assms] agg_doc_no_results by simp

theorem report_reads_only_results_witness:
  "normalize rt_exact payload_best = Inr (PStr ''robin'', Some (Finite (9 / 10)))
   \<and> raw doc_best = payload_best
   \<and> map_of [(''best'', PDict [(''label'', PStr ''robin''), (''score'', PFloat (Finite (9 / 10)))]),
            (''predictions'',
               PList [PDict [(''label'', PStr ''robin''), (''confidence'', PFloat (Finite (9 / 10)))]])]
        ''results'' = None
   \<and> doc_results doc_best = []
   \<and> agg_doc rt_exact (Finite (3 / 10)) doc_best st0 = Inr st0"
proof -
  have h0: "normalize rt_exact payload_best = Inr (PStr ''robin'', Some (Finite (9 / 10)))"
    by (simp add: normalize_def payload_best_def is_dict_def py_get_def dict_get_def
        pick_label_def pick_score_def score_expr_def)
  have h1: "raw doc_best = PDict [(''best'', PDict [(''label'', PStr ''robin''), (''score'', PFloat (Finite (9 / 10)))]),
            (''predictions'',
               PList [PDict [(''label'', PStr ''robin''), (''confidence'', PFloat (Finite (9 / 10)))]])]"
    by (simp add: doc_best_def payload_best_def)
  have h2: "map_of [(''best'', PDict [(''label'', PStr ''robin''), (''score'', PFloat (Finite (9 / 10)))]),
            (''predictions'',
               PList [PDict [(''label'', PStr ''robin''), (''confidence'', PFloat (Finite (9 / 10)))]])]
        ''results'' = None"
    by simp
  from report_reads_only_results [OF h1 h2, of rt_exact "Finite (3 / 10)" st0] h0 h1 h2
  show ?thesis
    by (simp add: payload_best_def)
qed

section \<open>The normalizer\<close>

lemma pick_label_dict: "\<exists>l. pick_label (PDict d) = Inr l"
  by (simp add: pick_label_def py_get_def)

lemma normalize_dict_step:
  "is_dict b \<Longrightarrow> \<exists>l. (case pick_label b of Inl x \<Rightarrow> Inl x | Inr l \<Rightarrow> Inr (l, pick_score rt b)) = Inr l"
  by (cases b) (simp_all add: is_dict_def pick_label_def py_get_def)

lemma is_dict_PDict: "is_dict (PDict kv)"
  by (simp add: is_dict_def)

lemma normalize_tail:
  "\<exists>r. (if is_list preds \<and> truthy preds then
          (case py_index0 preds of Inl x \<Rightarrow> Inl x | Inr first \<Rightarrow>
             if is_dict first
             then (case pick_label first of Inl x \<Rightarrow> Inl x
                   | Inr l \<Rightarrow> Inr (l, pick_score rt first))
             else Inr best)
        else Inr best) = Inr r"
proof (cases preds)
  case (PList xs)
  show ?thesis
  proof (cases xs)
    case Nil
    with PList show ?thesis by simp
  next
    case (Cons first rest)
    with PList show ?thesis
      using normalize_dict_step [of first rt]
      by (cases "is_dict first") (auto simp: is_list_def)
  qed
qed (simp_all add: is_list_def)

lemma normalize_total: "\<exists>r. normalize rt parsed = Inr r"
proof (cases parsed)
  case (PDict kv)
  obtain best where best:
    "(if is_dict (dict_get kv ''best'')
      then (case pick_label (dict_get kv ''best'') of Inl x \<Rightarrow> Inl x
            | Inr l \<Rightarrow> Inr (l, pick_score rt (dict_get kv ''best'')))
      else Inr (PNone, None)) = Inr best"
    using normalize_dict_step [of "dict_get kv ''best''" rt]
    by (cases "is_dict (dict_get kv ''best'')") auto
  show ?thesis
  proof (cases "fst best = PNone")
    case False
    then show ?thesis
      by (simp add: PDict normalize_def is_dict_PDict py_get_def best)
  next
    case True
    show ?thesis
    proof (cases "truthy (dict_get kv ''predictions'')")
      case yes: True
      show ?thesis
        using normalize_tail [of "dict_get kv ''predictions''" rt best]
        by (simp add: PDict normalize_def is_dict_PDict py_get_def best True yes)
    next
      case no: False
      show ?thesis
        using normalize_tail [of "dict_get kv ''results''" rt best]
        by (simp add: PDict normalize_def is_dict_PDict py_get_def best True no)
    qed
  qed
qed (simp_all add: normalize_def is_dict_def)

lemma normalize_raw_echo:
  "normalize rt (PDict [(''raw'', PStr text)]) = Inr (PNone, None)"
  by (simp add: normalize_def is_dict_def py_get_def dict_get_def is_list_def)

lemma pick_score_raises:
  "dict_get d ''score'' = v \<Longrightarrow> py_float rt v = Inl x \<Longrightarrow> pick_score rt (PDict d) = None"
  by (auto simp: pick_score_def score_expr_def py_get_def)

text \<open>
  C7: the normalizer returns for every payload; a response text that \<^verbatim>\<open>json.loads\<close>
  rejects is stored with no label and gives the report no segment; a score or confidence
  that \<^verbatim>\<open>float()\<close> rejects becomes \<^verbatim>\<open>None\<close>.
\<close>

theorem normalization_never_raises:
  "(\<exists>r. normalize rt parsed = Inr r)
   \<and> (\<exists>d. outcome_doc rt a resp_text = Inr d)
   \<and> (json_loads rt resp_text = None \<longrightarrow>
        (\<exists>d. outcome_doc rt a resp_text = Inr d \<and> best_label d = PNone
              \<and> raw d = PDict [(''raw'', PStr resp_text)]
              \<and> doc_results d = [] \<and> agg_doc rt threshold d st = Inr st))
   \<and> (dict_get kv ''score'' = v \<and> py_float rt v = Inl x \<longrightarrow> pick_score rt (PDict kv) = None)
   \<and> (py_float rt v = Inl x \<longrightarrow> safe_float rt v = None)"
proof -
  have total: "\<exists>d. outcome_doc rt a resp_text = Inr d"
    using normalize_total [of rt "safe_json rt resp_text"]
    by (auto simp: outcome_doc_def Let_def)
  have echo: "json_loads rt resp_text = None \<longrightarrow>
        (\<exists>d. outcome_doc rt a resp_text = Inr d \<and> best_label d = PNone
              \<and> raw d = PDict [(''raw'', PStr resp_text)]
              \<and> doc_results d = [] \<and> agg_doc rt threshold d st = Inr st)"
    by (simp add: outcome_doc_def safe_json_def normalize_raw_echo doc_results_def
        py_or_def dict_get_def agg_doc_def)
  show ?thesis
    using normalize_total [of rt parsed] total echo pick_score_raises [of kv v rt x]
      safe_float_raises [of rt v x]
    by blast
qed

theorem normalization_never_raises_witness:
  "json_loads rt_exact ''<html>'' = None
   \<and> (\<exists>d. outcome_doc rt_exact an_audio ''<html>'' = Inr d \<and> best_label d = PNone
              \<and> raw d = PDict [(''raw'', PStr ''<html>'')]
              \<and> doc_results d = [] \<and> agg_doc rt_exact (Finite (3 / 10)) d st0 = Inr st0)
   \<and> dict_get [(''label'', PStr ''robin''), (''score'', PStr ''high'')] ''score'' = PStr ''high''
   \<and> py_float rt_exact (PStr ''high'') = Inl ValueError
   \<and> pick_score rt_exact (PDict [(''label'', PStr ''robin''), (''score'', PStr ''high'')]) = None
   \<and> safe_float rt_exact (PStr ''high'') = None"
proof -
  have h1: "json_loads rt_exact ''<html>'' = None"
    by (simp add: rt_exact_def)
  have h2: "dict_get [(''label'', PStr ''robin''), (''score'', PStr ''high'')] ''score'' = PStr ''high''"
    by (simp add: dict_get_def)
  have h3: "py_float rt_exact (PStr ''high'') = Inl ValueError"
    by (simp add: rt_exact_def)
  from normalization_never_raises [of rt_exact payload_best an_audio "''<html>''" "Finite (3 / 10)" st0
      "[(''label'', PStr ''robin''), (''score'', PStr ''high'')]" "PStr ''high''" ValueError]
    h1 h2 h3
  show ?thesis
    by simp
qed

section \<open>The commit\<close>
















section \<open>The order of the report\<close>

lemma flt_asym: "flt a b \<Longrightarrow> \<not> flt b a"
  by (cases a; cases b) auto

lemma flt_total: "a \<noteq> NaN \<Longrightarrow> b \<noteq> NaN \<Longrightarrow> flt a b \<or> a = b \<or> flt b a"
  by (cases a; cases b) auto

lemma flt_trans: "flt a b \<Longrightarrow> flt b c \<Longrightarrow> flt a c"
  by (cases a; cases b; cases c) auto

lemma flt_irrefl: "\<not> flt a a"
  by (cases a) auto

lemma key_lt_asym: "key_lt a b \<Longrightarrow> \<not> key_lt b a"
  by (auto simp: key_lt_def feq_def dest: flt_asym split: if_splits)

lemma key_lt_negtrans:
  assumes "snd a \<noteq> NaN" "snd b \<noteq> NaN" "snd c \<noteq> NaN"
      and "\<not> key_lt a b" "\<not> key_lt b c"
  shows "\<not> key_lt a c"
proof
  assume ac: "key_lt a c"
  consider "fst a < fst c" | "fst a = fst c" "flt (snd a) (snd c)"
    using ac by (auto simp: key_lt_def split: if_splits)
  then show False
  proof cases
    case 1
    from assms(4,5) have "fst b \<le> fst a" "fst c \<le> fst b"
      by (auto simp: key_lt_def split: if_splits)
    with 1 show False by simp
  next
    case 2
    from assms(4,5) have le: "fst b \<le> fst a" "fst c \<le> fst b"
      by (auto simp: key_lt_def split: if_splits)
    with 2 have eq: "fst a = fst b" "fst b = fst c" by simp_all
    from assms(4) eq have ab: "\<not> flt (snd a) (snd b)"
      by (auto simp: key_lt_def feq_def flt_irrefl split: if_splits)
    from assms(5) eq have bc: "\<not> flt (snd b) (snd c)"
      by (auto simp: key_lt_def feq_def flt_irrefl split: if_splits)
    from ab assms(1,2) have "snd a = snd b \<or> flt (snd b) (snd a)"
      using flt_total by blast
    moreover from bc assms(2,3) have "snd b = snd c \<or> flt (snd c) (snd b)"
      using flt_total by blast
    ultimately have "snd a = snd c \<or> flt (snd c) (snd a)"
      by (auto intro: flt_trans)
    with 2(2) show False
      using flt_asym flt_irrefl by metis
  qed
qed

lemma not_key_lt_iff:
  assumes "r_max_confidence a \<noteq> NaN" "r_max_confidence b \<noteq> NaN"
  shows "(\<not> key_lt (row_key a) (row_key b)) = ranks_before a b"
  using assms flt_total [OF assms] flt_asym [of "r_max_confidence a" "r_max_confidence b"]
  by (auto simp: key_lt_def row_key_def ranks_before_def fge_def feq_def flt_irrefl)

lemma set_insert_row: "set (insert_row x ys) = insert x (set ys)"
  by (induction ys) auto

lemma mset_insert_row: "mset (insert_row x ys) = add_mset x (mset ys)"
  by (induction ys) auto

lemma set_sort_ascending: "set (sort_ascending xs) = set xs"
  by (induction xs) (simp_all add: sort_ascending_def set_insert_row)

lemma mset_sort_ascending: "mset (sort_ascending xs) = mset xs"
  by (induction xs) (simp_all add: sort_ascending_def mset_insert_row)

lemma set_sort_rows: "set (sort_rows xs) = set xs"
  by (simp add: sort_rows_def set_sort_ascending)

lemma mset_sort_rows: "mset (sort_rows xs) = mset xs"
  by (simp add: sort_rows_def mset_sort_ascending)

lemma sorted_insert_row:
  assumes "r_max_confidence x \<noteq> NaN" and "\<forall>y\<in>set ys. r_max_confidence y \<noteq> NaN"
      and "sorted_wrt (\<lambda>a b. \<not> key_lt (row_key b) (row_key a)) ys"
  shows "sorted_wrt (\<lambda>a b. \<not> key_lt (row_key b) (row_key a)) (insert_row x ys)"
  using assms(2,3)
proof (induction ys)
  case Nil
  then show ?case by simp
next
  case (Cons y ys)
  show ?case
  proof (cases "key_lt (row_key y) (row_key x)")
    case True
    with Cons show ?thesis
      by (auto simp: set_insert_row dest: key_lt_asym)
  next
    case False
    have "\<not> key_lt (row_key z) (row_key x)" if "z \<in> set ys" for z
    proof -
      from Cons.prems that have "\<not> key_lt (row_key z) (row_key y)"
        and "r_max_confidence z \<noteq> NaN" and "r_max_confidence y \<noteq> NaN"
        by auto
      with False assms(1) show ?thesis
        using key_lt_negtrans [of "row_key z" "row_key y" "row_key x"]
        by (simp add: row_key_def)
    qed
    with False Cons.prems show ?thesis
      by auto
  qed
qed

lemma sorted_sort_ascending:
  "\<forall>y\<in>set xs. r_max_confidence y \<noteq> NaN \<Longrightarrow>
     sorted_wrt (\<lambda>a b. \<not> key_lt (row_key b) (row_key a)) (sort_ascending xs)"
proof (induction xs)
  case Nil
  then show ?case by (simp add: sort_ascending_def)
next
  case (Cons x xs)
  then have "sorted_wrt (\<lambda>a b. \<not> key_lt (row_key b) (row_key a)) (sort_ascending xs)"
    by simp
  with Cons.prems show ?case
    using sorted_insert_row [of x "sort_ascending xs"]
    by (simp add: sort_ascending_def set_sort_ascending [unfolded sort_ascending_def])
qed

lemma sorted_sort_rows:
  assumes "\<forall>y\<in>set xs. r_max_confidence y \<noteq> NaN"
  shows "sorted_wrt ranks_before (sort_rows xs)"
proof -
  have "sorted_wrt (\<lambda>a b. \<not> key_lt (row_key b) (row_key a)) (sort_ascending (rev xs))"
    using assms by (intro sorted_sort_ascending) simp
  then have desc: "sorted_wrt (\<lambda>a b. \<not> key_lt (row_key a) (row_key b)) (sort_rows xs)"
    by (simp add: sort_rows_def sorted_wrt_rev)
  show ?thesis
  proof (rule sorted_wrt_mono_rel [OF _ desc])
    fix a b
    assume "a \<in> set (sort_rows xs)" "b \<in> set (sort_rows xs)"
      and "\<not> key_lt (row_key a) (row_key b)"
    with assms show "ranks_before a b"
      by (simp add: set_sort_rows not_key_lt_iff)
  qed
qed

text \<open>
  C3: the rows are sorted by positive segments, then by maximal confidence, both
  descending, and \<open>top_n > 0\<close> keeps the first \<open>top_n\<close> rows of that order. The maximal
  confidence of a row is a maximum taken from 0.0 with \<^verbatim>\<open>>\<close>, so it is no NaN.
\<close>

theorem report_sorted_and_truncated:
  assumes "\<forall>r\<in>set rows. r_max_confidence r \<noteq> NaN"
  shows "mset (sort_rows rows) = mset rows
         \<and> sorted_wrt ranks_before (sort_rows rows)
         \<and> top_rows top_n (sort_rows rows)
             = (if 0 < top_n then take (nat top_n) (sort_rows rows) else sort_rows rows)
         \<and> (top_n \<le> 0 \<or> int (length rows) \<le> top_n
              \<longrightarrow> top_rows top_n (sort_rows rows) = sort_rows rows)"
proof -
  have "length (sort_rows rows) = length rows"
    using mset_sort_rows [of rows] by (metis size_mset)
  then show ?thesis
    using sorted_sort_rows [OF assms]
    by (auto simp: mset_sort_rows top_rows_def)
qed

theorem report_sorted_and_truncated_witness:
  "list_all (\<lambda>r. r_max_confidence r \<noteq> NaN) three_rows
   \<and> sort_rows three_rows = [a_row ''C'' 7 (1 / 10), a_row ''B'' 5 (9 / 10), a_row ''A'' 5 (6 / 10)]
   \<and> sorted_wrt ranks_before (sort_rows three_rows)
   \<and> top_rows 2 (sort_rows three_rows) = [a_row ''C'' 7 (1 / 10), a_row ''B'' 5 (9 / 10)]
   \<and> top_rows 0 (sort_rows three_rows) = sort_rows three_rows"
proof -
  have h: "\<forall>r\<in>set three_rows. r_max_confidence r \<noteq> NaN"
    by (simp add: three_rows_def a_row_def)
  have s: "sort_rows three_rows
      = [a_row ''C'' 7 (1 / 10), a_row ''B'' 5 (9 / 10), a_row ''A'' 5 (6 / 10)]"
    by (simp add: three_rows_def a_row_def sort_rows_def sort_ascending_def row_key_def
        key_lt_def feq_def)
  from report_sorted_and_truncated [OF h, of 2] report_sorted_and_truncated [OF h, of 0] h s
  show ?thesis
    by (simp add: list_all_iff)
qed

section \<open>The rows of the report\<close>

lemma set_top_rows: "set (top_rows n xs) \<subseteq> set xs"
  by (auto simp: top_rows_def dest: in_set_takeD)

lemma set_filter_species: "set (filter_species q xs) \<subseteq> set xs"
  by (auto simp: filter_species_def Let_def split: option.splits)

lemma clean_row_positive: "r_positive_segments (clean_row r) = r_positive_segments r"
  by (simp add: clean_row_def Let_def)

lemma build_rows_positive:
  "r \<in> set (build_rows rt obs st) \<Longrightarrow> 1 \<le> r_positive_segments r"
  by (auto simp: build_rows_def build_row_def Let_def)

text \<open>
  C5: every row of the report has at least one positive segment, whatever the documents,
  the threshold, the species filter and \<open>top_n\<close>.
\<close>

theorem report_rows_have_positive_segment:
  assumes "report rt obs threshold species top_n docs = Inr rows"
  shows "\<forall>r\<in>set rows. 1 \<le> r_positive_segments r"
proof
  fix r assume "r \<in> set rows"
  with assms obtain st where
    "r \<in> set (top_rows top_n (sort_rows (filter_species species
                 (map clean_row (build_rows rt obs st)))))"
    by (auto simp: report_def split: sum.splits)
  then have "r \<in> set (map clean_row (build_rows rt obs st))"
    using set_top_rows set_filter_species by (fastforce simp: set_sort_rows)
  then obtain x where x: "x \<in> set (build_rows rt obs st)" and r: "r = clean_row x"
    by auto
  from build_rows_positive [OF x] show "1 \<le> r_positive_segments r"
    by (simp add: r clean_row_positive)
qed

theorem report_rows_have_positive_segment_witness:
  "report rt_exact (\<lambda>k. 0) (Finite (3 / 10)) None 0 [doc_two_species] = Inr [row_robin]
   \<and> 1 \<le> r_positive_segments row_robin"
proof -
  have h: "report rt_exact (\<lambda>k. 0) (Finite (3 / 10)) None 0 [doc_two_species] = Inr [row_robin]"
    by code_simp
  from report_rows_have_positive_segment [OF h] h show ?thesis
    by simp
qed

section \<open>The maximal confidence is no NaN\<close>

lemma flt_NaN_right: "\<not> flt a NaN"
  by (cases a) auto

lemma count_segment_max_not_nan:
  "e_max_confidence e \<noteq> NaN \<Longrightarrow> e_max_confidence (count_segment rt threshold c e) \<noteq> NaN"
  by (auto simp: count_segment_def Let_def flt_NaN_right)

lemma agg_segment_max_not_nan:
  assumes "list_all (\<lambda>p. e_max_confidence (snd p) \<noteq> NaN) (fst st)"
      and "agg_segment rt threshold doc r st = Inr st'"
  shows "list_all (\<lambda>p. e_max_confidence (snd p) \<noteq> NaN) (fst st')"
proof (cases r)
  case (PDict kv)
  show ?thesis
  proof (cases "safe_float rt (dict_get kv ''confidence'')")
    case None
    with assms PDict show ?thesis
      by (simp add: agg_segment_def Let_def)
  next
    case (Some c)
    from assms(2) PDict Some obtain k e0 e2 sci com lab where
      e0: "e0 = (case map_of (fst st) k of Some e \<Rightarrow> e | None \<Rightarrow> new_entry sci com lab)"
      and e2: "sample_geo (py_or (geo doc) (PDict [])) (count_segment rt threshold c e0) = Inr e2"
      and st': "fst st' = set_entry (fst st) k e2"
      by (auto elim: agg_segment_cases)
    have "e_max_confidence e0 \<noteq> NaN"
      using assms(1) map_of_list_all [of "\<lambda>e. e_max_confidence e \<noteq> NaN" "fst st" k]
      by (auto simp: e0 new_entry_def split: option.splits)
    then have "e_max_confidence e2 \<noteq> NaN"
      using sample_geo_counts [OF e2] by (simp add: count_segment_max_not_nan)
    with assms(1) show ?thesis
      using list_all_set_entry [of "\<lambda>e. e_max_confidence e \<noteq> NaN" "fst st" e2 k]
      by (simp add: st')
  qed
qed (use assms in \<open>simp_all add: agg_segment_def\<close>)

lemma agg_segments_max_not_nan:
  "list_all (\<lambda>p. e_max_confidence (snd p) \<noteq> NaN) (fst st) \<Longrightarrow>
   agg_segments rt threshold doc rs st = Inr st' \<Longrightarrow>
   list_all (\<lambda>p. e_max_confidence (snd p) \<noteq> NaN) (fst st')"
  by (induction rs arbitrary: st) (auto split: sum.splits dest: agg_segment_max_not_nan)

lemma agg_docs_max_not_nan:
  "list_all (\<lambda>p. e_max_confidence (snd p) \<noteq> NaN) (fst st) \<Longrightarrow>
   agg_docs rt threshold ds st = Inr st' \<Longrightarrow>
   list_all (\<lambda>p. e_max_confidence (snd p) \<noteq> NaN) (fst st')"
  by (induction ds arbitrary: st)
    (auto simp: agg_doc_def split: sum.splits dest: agg_segments_max_not_nan)

lemma aggregate_max_not_nan:
  assumes "aggregate rt threshold docs = Inr st" and "(k, e) \<in> set (fst st)"
  shows "e_max_confidence e \<noteq> NaN"
proof -
  have "list_all (\<lambda>p. e_max_confidence (snd p) \<noteq> NaN) (fst st)"
    using agg_docs_max_not_nan [of "([], \<lambda>_. {})" rt threshold docs st] assms(1)
    by (simp add: aggregate_def)
  with assms(2) show ?thesis
    by (auto simp: list_all_iff)
qed

lemma built_rows_max_not_nan:
  assumes "aggregate rt threshold docs = Inr st"
      and "\<And>f. f \<noteq> NaN \<Longrightarrow> round4 rt f \<noteq> NaN"
      and "r \<in> set (filter_species species (map clean_row (build_rows rt obs st)))"
  shows "r_max_confidence r \<noteq> NaN"
proof -
  from assms(3) have "r \<in> set (map clean_row (build_rows rt obs st))"
    using set_filter_species by blast
  then obtain k e where ke: "(k, e) \<in> set (fst st)"
    and r: "r = clean_row (build_row rt obs (snd st) k e)"
    by (auto simp: build_rows_def)
  from aggregate_max_not_nan [OF assms(1) ke] assms(2) show ?thesis
    by (simp add: r clean_row_def build_row_def Let_def)
qed

section \<open>A segment whose name is no string\<close>

text \<open>
  The loop body calls \<^verbatim>\<open>strip()\<close> on \<^verbatim>\<open>scientific_name\<close> and \<^verbatim>\<open>common_name\<close> without a
  test of their type: a segment with a parseable confidence and a number for a name
  stops the report with an \<^verbatim>\<open>AttributeError\<close>.
\<close>

lemma segment_name_not_str_raises:
  "agg_segment rt_exact (Finite (3 / 10)) doc0
     (PDict [(''scientific_name'', PInt 5), (''confidence'', PFloat (Finite (1 / 2)))]) st0
   = Inl AttributeError"
  by (simp add: eval_defs)

end
